theory Spec2Isabelle
  imports Complex_Main "HOL-Library.Char_ord" "HOL-Library.List_Lexorder" "HOL-Library.Sublist"
begin

section \<open>Data model\<close>

text \<open>
  The dashboard of \<^verbatim>\<open>src/Dashboard/recent_trial.py\<close> works on pandas data frames.
  A frame is modelled as the list of its rows, in row order, and a row as a record of
  the columns the engine reads or writes. The three kinds of frame that occur are
  the fetched option chain of one side (columns \<^verbatim>\<open>strikePrice\<close>,
  \<^verbatim>\<open>expiryDate\<close>, \<^verbatim>\<open>impliedVolatility\<close>), the classified chain (one more
  column, \<^verbatim>\<open>moneyness\<close>) and the skew curve (two more, \<^verbatim>\<open>skew\<close> and
  \<^verbatim>\<open>ATM_IV\<close>). Each kind extends the previous one, as the code adds columns.

  Numbers are mathematical reals: the model idealises IEEE doubles and has no
  not-a-number value. The one place where the code produces not-a-number, the mean of
  an empty selection, is modelled by \<open>None\<close>. Expiry dates are the strings of the feed,
  ordered as strings, which is the order in which \<^verbatim>\<open>groupby\<close> visits them.
  The fetched frame is assumed to have its columns: the column-less frame that
  \<^verbatim>\<open>fetch_options_data\<close> builds for a side without any quote is outside the model.
\<close>

datatype moneyness_label = ITM | ATM | OTM

record key_row =
  strikePrice :: real
  expiryDate :: string

record option_row = key_row +
  impliedVolatility :: real

record classified_row = option_row +
  moneyness :: moneyness_label

record skew_row = classified_row +
  skew :: real
  ATM_IV :: real

record change_record = key_row +
  ATM_IV_change :: real
  skew_change :: real

datatype error = ValueError | KeyError

section \<open>Moneyness classifier\<close>

text \<open>
  \<^verbatim>\<open>options_df[options_df['impliedVolatility'] > 0]\<close>: boolean indexing, which
  builds a new frame of the selected rows.
\<close>

definition positive_iv :: "('a option_row_scheme) list \<Rightarrow> ('a option_row_scheme) list" where
  "positive_iv options_df = filter (\<lambda>r. impliedVolatility r > 0) options_df"

text \<open>\<^verbatim>\<open>options_df['moneyness'] = v\<close>: the column is created with one value in every row.\<close>

definition set_moneyness :: "moneyness_label \<Rightarrow> option_row list \<Rightarrow> classified_row list" where
  "set_moneyness v options_df =
     map (\<lambda>r. \<lparr>strikePrice = strikePrice r, expiryDate = expiryDate r,
                impliedVolatility = impliedVolatility r, moneyness = v\<rparr>) options_df"

text \<open>\<^verbatim>\<open>options_df.loc[mask, 'moneyness'] = v\<close>: the rows selected by the mask are relabelled.\<close>

definition loc_moneyness ::
  "(classified_row \<Rightarrow> bool) \<Rightarrow> moneyness_label \<Rightarrow> classified_row list \<Rightarrow> classified_row list" where
  "loc_moneyness sel v options_df =
     map (\<lambda>r. if sel r then r\<lparr>moneyness := v\<rparr> else r) options_df"

text \<open>\<^verbatim>\<open>classify_options\<close> of \<^verbatim>\<open>recent_trial.py\<close>, statement by statement.\<close>

definition classify_options :: "option_row list \<Rightarrow> real \<Rightarrow> classified_row list" where
  "classify_options options_df spot_price =
     (let options_df1 = positive_iv options_df;
          options_df2 = set_moneyness OTM options_df1;
          options_df3 = loc_moneyness (\<lambda>r. strikePrice r = spot_price) ATM options_df2;
          options_df4 = loc_moneyness (\<lambda>r. strikePrice r < spot_price) ITM options_df3;
          options_df5 = loc_moneyness (\<lambda>r. strikePrice r > spot_price) OTM options_df4
      in options_df5)"

section \<open>Skew calculator\<close>

text \<open>
  \<^verbatim>\<open>Series.mean()\<close>: the arithmetic mean, and not-a-number (here \<open>None\<close>) for
  an empty selection.
\<close>

definition series_mean :: "real list \<Rightarrow> real option" where
  "series_mean xs = (if xs = [] then None else Some (sum_list xs / real (length xs)))"

text \<open>
  \<^verbatim>\<open>filtered_df.groupby('expiryDate')\<close>, iterated: one pair of key and group per
  distinct expiry, keys ascending, each group holding its rows in frame order.
\<close>

definition groupby_expiryDate :: "classified_row list \<Rightarrow> (string \<times> classified_row list) list" where
  "groupby_expiryDate df =
     map (\<lambda>e. (e, filter (\<lambda>r. expiryDate r = e) df)) (sort (remdups (map expiryDate df)))"

text \<open>\<^verbatim>\<open>group.loc[group['moneyness'] == 'ATM', 'impliedVolatility'].mean()\<close>\<close>

definition atm_mean :: "classified_row list \<Rightarrow> real option" where
  "atm_mean group_df =
     series_mean (map impliedVolatility (filter (\<lambda>r. moneyness r = ATM) group_df))"

text \<open>
  One row of the copied group after \<^verbatim>\<open>group['skew'] = group['impliedVolatility'] - atm_iv\<close>
  and \<^verbatim>\<open>group['ATM_IV'] = atm_iv\<close>, restricted to the six columns that are kept.
\<close>

definition with_skew :: "real \<Rightarrow> classified_row \<Rightarrow> skew_row" where
  "with_skew atm_iv r =
     \<lparr>strikePrice = strikePrice r, expiryDate = expiryDate r,
      impliedVolatility = impliedVolatility r, moneyness = moneyness r,
      skew = impliedVolatility r - atm_iv, ATM_IV = atm_iv\<rparr>"

text \<open>
  The loop over the groups. It carries \<^verbatim>\<open>skew_data\<close> and the variable
  \<^verbatim>\<open>atm_iv\<close>, which keeps the value of the last group visited and is returned
  beside the curve. \<^verbatim>\<open>pd.notna(atm_iv)\<close> is the case \<open>Some\<close>.
\<close>

fun skew_loop ::
  "(string \<times> classified_row list) list \<Rightarrow> skew_row list list \<Rightarrow> real option
     \<Rightarrow> skew_row list list \<times> real option" where
  "skew_loop [] skew_data atm_iv = (skew_data, atm_iv)"
| "skew_loop ((expiry, group_df) # rest) skew_data previous =
     (case atm_mean group_df of
        None \<Rightarrow> skew_loop rest skew_data None
      | Some a \<Rightarrow> skew_loop rest (skew_data @ [map (with_skew a) group_df]) (Some a))"

text \<open>\<^verbatim>\<open>pd.concat\<close> raises \<^verbatim>\<open>ValueError\<close> when it is given no frame at all.\<close>

definition pd_concat :: "'a list list \<Rightarrow> error + 'a list" where
  "pd_concat objs = (if objs = [] then Inl ValueError else Inr (concat objs))"

text \<open>
  \<^verbatim>\<open>calculate_volatility_skew\<close> of \<^verbatim>\<open>recent_trial.py\<close>. The result is the pair
  the code returns, \<open>None\<close> standing for Python's \<^verbatim>\<open>None\<close>, or the exception raised.
\<close>

definition calculate_volatility_skew ::
  "classified_row list \<Rightarrow> error + (skew_row list option \<times> real option)" where
  "calculate_volatility_skew options_df =
     (let filtered_df = positive_iv options_df in
      if filtered_df = [] then Inr (None, None)
      else
        (let (skew_data, atm_iv) = skew_loop (groupby_expiryDate filtered_df) [] None in
         case pd_concat skew_data of
           Inl e \<Rightarrow> Inl e
         | Inr curve \<Rightarrow> Inr (Some curve, atm_iv)))"

section \<open>Row-wise reading of the classifier\<close>

text \<open>
  The four column assignments of \<^verbatim>\<open>classify_options\<close> leave each kept row with one
  label that depends on its strike and the spot price only.
\<close>

definition classify_row :: "real \<Rightarrow> option_row \<Rightarrow> classified_row" where
  "classify_row spot_price r =
     \<lparr>strikePrice = strikePrice r, expiryDate = expiryDate r,
      impliedVolatility = impliedVolatility r,
      moneyness = (if strikePrice r = spot_price then ATM
                   else if strikePrice r < spot_price then ITM else OTM)\<rparr>"

text \<open>The rows one group contributes to the curve: none when it has no ATM mean.\<close>

definition group_rows :: "classified_row list \<Rightarrow> skew_row list" where
  "group_rows g = (case atm_mean g of None \<Rightarrow> [] | Some a \<Rightarrow> map (with_skew a) g)"

section \<open>Drift detector\<close>

text \<open>
  \<^verbatim>\<open>current_skew.merge(baseline_skew, on=['strikePrice', 'expiryDate'],
  suffixes=('_current', '_baseline'))\<close>: an inner join. A merged row is a pair of a
  current row and a baseline row with the same strike and expiry; its columns with
  suffix \<^verbatim>\<open>_current\<close> are those of the first component and its columns with suffix
  \<^verbatim>\<open>_baseline\<close> those of the second. A key that occurs in one frame only gives no
  merged row; a key that occurs several times gives every pairing. The properties proved
  below are about which rows occur, so the order of the pairings is not relied on.
\<close>

definition merge_on_key :: "skew_row list \<Rightarrow> skew_row list \<Rightarrow> (skew_row \<times> skew_row) list" where
  "merge_on_key left right =
     concat (map (\<lambda>l. map (\<lambda>r. (l, r))
        (filter (\<lambda>r. strikePrice r = strikePrice l \<and> expiryDate r = expiryDate l) right)) left)"

text \<open>The two columns added to the merged frame.\<close>

definition merged_ATM_IV_change :: "skew_row \<times> skew_row \<Rightarrow> real" where
  "merged_ATM_IV_change m = impliedVolatility (fst m) - impliedVolatility (snd m)"

definition merged_skew_change :: "skew_row \<times> skew_row \<Rightarrow> real" where
  "merged_skew_change m = skew (fst m) - skew (snd m)"

text \<open>
  The selection \<^verbatim>\<open>[['strikePrice', 'expiryDate', 'ATM_IV_change', 'skew_change']]\<close>
  of one merged row.
\<close>

definition change_columns :: "skew_row \<times> skew_row \<Rightarrow> change_record" where
  "change_columns m =
     \<lparr>strikePrice = strikePrice (fst m), expiryDate = expiryDate (fst m),
      ATM_IV_change = merged_ATM_IV_change m, skew_change = merged_skew_change m\<rparr>"

text \<open>
  \<^verbatim>\<open>compare_skews\<close> of \<^verbatim>\<open>recent_trial.py\<close>. Either frame may be \<^verbatim>\<open>None\<close>,
  and the result is \<^verbatim>\<open>None\<close> unless some change is significant.
\<close>

definition compare_skews ::
  "skew_row list option \<Rightarrow> skew_row list option \<Rightarrow> real \<Rightarrow> change_record list option" where
  "compare_skews baseline_skew current_skew threshold =
     (case baseline_skew of
        None \<Rightarrow> None
      | Some baseline \<Rightarrow>
          (case current_skew of
             None \<Rightarrow> None
           | Some current \<Rightarrow>
               (let merged_skew = merge_on_key current baseline;
                    atm_changes = filter (\<lambda>m. moneyness (fst m) = ATM) merged_skew;
                    significant_changes =
                      filter (\<lambda>m. \<bar>merged_ATM_IV_change m\<bar> > threshold \<or>
                                   \<bar>merged_skew_change m\<bar> > threshold) atm_changes
                in if significant_changes = [] then None
                   else Some (map change_columns significant_changes))))"

text \<open>
  The records a result stands for. \<^verbatim>\<open>display_significant_changes\<close> and
  \<^verbatim>\<open>main\<close> treat \<^verbatim>\<open>None\<close> as no change at all and go through the rows of a
  frame otherwise.
\<close>

definition reported_changes :: "change_record list option \<Rightarrow> change_record list" where
  "reported_changes changes = (case changes of None \<Rightarrow> [] | Some rows \<Rightarrow> rows)"

section \<open>Baseline store\<close>

text \<open>
  Modelled from the spec: the baseline file and pandas' \<^verbatim>\<open>DataFrame.to_csv\<close> and
  \<^verbatim>\<open>read_csv\<close>, which write and read it and are not part of the sources. The
  specification describes the file as a flat table with a required header row and one row
  per strike and expiry (sections 4.3 and 6). A file is modelled as that table: the header
  and the rows of entries, an entry being a number or a text. The decimal rendering of a
  number and its parsing are not modelled: a number is written and read back as it is.
\<close>

datatype cell = Number real | Text string

record csv_table =
  csv_header :: "string list"
  csv_rows :: "cell list list"

text \<open>
  Modelled from the spec: the header of a baseline file, the six columns of a curve in the
  order in which \<^verbatim>\<open>calculate_volatility_skew\<close> selects them.
\<close>

definition curve_columns :: "string list" where
  "curve_columns =
     [''strikePrice'', ''moneyness'', ''expiryDate'', ''impliedVolatility'', ''skew'', ''ATM_IV'']"

text \<open>Modelled from the spec: the text of a moneyness label in the file, and its reading.\<close>

fun moneyness_text :: "moneyness_label \<Rightarrow> string" where
  "moneyness_text ITM = ''ITM''"
| "moneyness_text ATM = ''ATM''"
| "moneyness_text OTM = ''OTM''"

definition text_moneyness :: "string \<Rightarrow> moneyness_label option" where
  "text_moneyness s =
     (if s = ''ITM'' then Some ITM else if s = ''ATM'' then Some ATM
      else if s = ''OTM'' then Some OTM else None)"

text \<open>
  Modelled from the spec: \<^verbatim>\<open>to_csv(filename, index=False)\<close> writes the header and one
  row of entries per row of the frame, in frame order and without the index.
\<close>

definition csv_row :: "skew_row \<Rightarrow> cell list" where
  "csv_row r =
     [Number (strikePrice r), Text (moneyness_text (moneyness r)), Text (expiryDate r),
      Number (impliedVolatility r), Number (skew r), Number (ATM_IV r)]"

definition to_csv :: "skew_row list \<Rightarrow> csv_table" where
  "to_csv df = \<lparr>csv_header = curve_columns, csv_rows = map csv_row df\<rparr>"

text \<open>
  Modelled from the spec: \<^verbatim>\<open>read_csv\<close> names the columns by the header row. The
  entry of a row under a column name is the entry at the position of the name in the
  header.
\<close>

fun entry :: "string \<Rightarrow> string list \<Rightarrow> cell list \<Rightarrow> cell option" where
  "entry name (h # hs) (c # cs) = (if h = name then Some c else entry name hs cs)"
| "entry name hs cs = None"

text \<open>
  Modelled from the spec: one row of the frame read back, through the six columns of a
  curve. A row that lacks one of them, or has a text where the engine computes with a
  number, is no row of a curve.
\<close>

definition read_row :: "string list \<Rightarrow> cell list \<Rightarrow> skew_row option" where
  "read_row hs cs =
     (case (entry ''strikePrice'' hs cs, entry ''expiryDate'' hs cs,
            entry ''impliedVolatility'' hs cs, entry ''moneyness'' hs cs,
            entry ''skew'' hs cs, entry ''ATM_IV'' hs cs) of
        (Some (Number k), Some (Text e), Some (Number iv), Some (Text m),
         Some (Number s), Some (Number a)) \<Rightarrow>
          (case text_moneyness m of
             Some l \<Rightarrow>
               Some \<lparr>strikePrice = k, expiryDate = e, impliedVolatility = iv, moneyness = l,
                     skew = s, ATM_IV = a\<rparr>
           | None \<Rightarrow> None)
      | _ \<Rightarrow> None)"

text \<open>
  Modelled from the spec: \<^verbatim>\<open>read_csv\<close> as the engine uses its result, the rows in
  file order; \<^verbatim>\<open>KeyError\<close> stands for a file that is not the table of a curve.
\<close>

definition read_csv :: "csv_table \<Rightarrow> error + skew_row list" where
  "read_csv t =
     (case those (map (read_row (csv_header t)) (csv_rows t)) of
        None \<Rightarrow> Inl KeyError
      | Some df \<Rightarrow> Inr df)"

text \<open>The files of the working directory, by name; a name without a file is \<open>None\<close>.\<close>

type_synonym files = "string \<Rightarrow> csv_table option"

text \<open>
  \<^verbatim>\<open>save_baseline_skew\<close> of \<^verbatim>\<open>recent_trial.py\<close>: nothing is written for
  \<^verbatim>\<open>None\<close>, and the file is replaced as a whole otherwise.
\<close>

definition save_baseline_skew :: "files \<Rightarrow> skew_row list option \<Rightarrow> string \<Rightarrow> files" where
  "save_baseline_skew fs baseline_skew filename =
     (case baseline_skew of
        None \<Rightarrow> fs
      | Some df \<Rightarrow> fs(filename \<mapsto> to_csv df))"

text \<open>
  \<^verbatim>\<open>load_baseline_skew\<close> of \<^verbatim>\<open>recent_trial.py\<close>: \<^verbatim>\<open>None\<close> when
  \<^verbatim>\<open>os.path.exists\<close> finds no file of that name, and the frame read otherwise.
\<close>

definition load_baseline_skew :: "files \<Rightarrow> string \<Rightarrow> error + skew_row list option" where
  "load_baseline_skew fs filename =
     (case fs filename of
        None \<Rightarrow> Inr None
      | Some t \<Rightarrow> (case read_csv t of Inl e \<Rightarrow> Inl e | Inr df \<Rightarrow> Inr (Some df)))"

section \<open>Frames as objects\<close>

text \<open>
  Whether an operation changes the frame it is given depends on which statements build a
  new frame and which write into an existing one. For this the frames live in a store:
  the list of all frame objects made so far, a frame being named by its position.
  Boolean indexing, \<^verbatim>\<open>copy\<close> and \<^verbatim>\<open>pd.concat\<close> make a new object, which is
  appended; a column assignment writes into the object it is applied to.
\<close>

datatype frame =
    Chain "option_row list"
  | Classified "classified_row list"
  | Curve "skew_row list"

type_synonym store = "frame list"

definition new_frame :: "store \<Rightarrow> frame \<Rightarrow> store \<times> nat" where
  "new_frame h f = (h @ [f], length h)"

text \<open>
  \<^verbatim>\<open>df['moneyness'] = v\<close> on the object at position \<open>a\<close>: the column is created, or
  overwritten where the frame has it already.
\<close>

definition assign_moneyness :: "store \<Rightarrow> nat \<Rightarrow> moneyness_label \<Rightarrow> store" where
  "assign_moneyness h a v =
     (if a < length h then
        (case h ! a of
           Chain rows \<Rightarrow> h[a := Classified (set_moneyness v rows)]
         | Classified rows \<Rightarrow> h[a := Classified (loc_moneyness (\<lambda>r. True) v rows)]
         | Curve rows \<Rightarrow> h[a := Curve (map (\<lambda>r. r\<lparr>moneyness := v\<rparr>) rows)])
      else h)"

text \<open>
  \<^verbatim>\<open>df.loc[sel, 'moneyness'] = v\<close> on the object at position \<open>a\<close>, which has the
  column by then in every use the code makes of it.
\<close>

definition assign_moneyness_where ::
  "store \<Rightarrow> nat \<Rightarrow> (classified_row \<Rightarrow> bool) \<Rightarrow> moneyness_label \<Rightarrow> store" where
  "assign_moneyness_where h a sel v =
     (if a < length h then
        (case h ! a of
           Classified rows \<Rightarrow> h[a := Classified (loc_moneyness sel v rows)]
         | _ \<Rightarrow> h)
      else h)"

text \<open>
  \<^verbatim>\<open>classify_options\<close> of \<^verbatim>\<open>recent_trial.py\<close> on the store. Its first statement
  binds the local name \<^verbatim>\<open>options_df\<close> to the new frame of the valid rows, and the
  four assignments that follow write into that frame. The result is the new store and
  the position of the returned frame; \<open>None\<close> stands for a call on something that is not
  an option chain, which the program does not make.
\<close>

definition classify_options_store :: "store \<Rightarrow> nat \<Rightarrow> real \<Rightarrow> (store \<times> nat) option" where
  "classify_options_store h options_df spot_price =
     (if options_df < length h then
        (case h ! options_df of
           Chain rows \<Rightarrow>
             (let (h1, options_df1) = new_frame h (Chain (positive_iv rows));
                  h2 = assign_moneyness h1 options_df1 OTM;
                  h3 = assign_moneyness_where h2 options_df1 (\<lambda>r. strikePrice r = spot_price) ATM;
                  h4 = assign_moneyness_where h3 options_df1 (\<lambda>r. strikePrice r < spot_price) ITM;
                  h5 = assign_moneyness_where h4 options_df1 (\<lambda>r. strikePrice r > spot_price) OTM
              in Some (h5, options_df1))
         | _ \<Rightarrow> None)
      else None)"

text \<open>
  \<^verbatim>\<open>group['skew'] = group['impliedVolatility'] - atm_iv\<close> and
  \<^verbatim>\<open>group['ATM_IV'] = atm_iv\<close> on the object at position \<open>a\<close>.
\<close>

definition assign_skew :: "store \<Rightarrow> nat \<Rightarrow> real \<Rightarrow> store" where
  "assign_skew h a atm_iv =
     (if a < length h then
        (case h ! a of
           Classified rows \<Rightarrow> h[a := Curve (map (with_skew atm_iv) rows)]
         | _ \<Rightarrow> h)
      else h)"

text \<open>The rows of the curve frame at a position, for the column selection that is appended.\<close>

definition curve_at :: "store \<Rightarrow> nat \<Rightarrow> skew_row list" where
  "curve_at h a = (if a < length h then (case h ! a of Curve rows \<Rightarrow> rows | _ \<Rightarrow> []) else [])"

text \<open>
  The loop of \<^verbatim>\<open>calculate_volatility_skew\<close> on the store: a group with an ATM mean
  is copied (\<^verbatim>\<open>group = group.copy()\<close>), and the two columns are assigned in the copy.
\<close>

fun skew_loop_store ::
  "store \<Rightarrow> (string \<times> classified_row list) list \<Rightarrow> skew_row list list \<Rightarrow> real option
     \<Rightarrow> store \<times> skew_row list list \<times> real option" where
  "skew_loop_store h [] skew_data atm_iv = (h, skew_data, atm_iv)"
| "skew_loop_store h ((expiry, group_df) # rest) skew_data previous =
     (case atm_mean group_df of
        None \<Rightarrow> skew_loop_store h rest skew_data None
      | Some a \<Rightarrow>
          (let (h1, group_copy) = new_frame h (Classified group_df);
               h2 = assign_skew h1 group_copy a
           in skew_loop_store h2 rest (skew_data @ [curve_at h2 group_copy]) (Some a)))"

text \<open>
  \<^verbatim>\<open>calculate_volatility_skew\<close> of \<^verbatim>\<open>recent_trial.py\<close> on the store:
  \<^verbatim>\<open>filtered_df\<close> and the concatenated curve are new frames. The second component
  is what the call returns or raises, a returned curve being named by its position.
\<close>

definition calculate_volatility_skew_store ::
  "store \<Rightarrow> nat \<Rightarrow> (store \<times> (error + (nat option \<times> real option))) option" where
  "calculate_volatility_skew_store h options_df =
     (if options_df < length h then
        (case h ! options_df of
           Classified rows \<Rightarrow>
             (let (h1, filtered_df) = new_frame h (Classified (positive_iv rows)) in
              if positive_iv rows = [] then Some (h1, Inr (None, None))
              else
                (let (h2, skew_data, atm_iv) =
                       skew_loop_store h1 (groupby_expiryDate (positive_iv rows)) [] None in
                 case pd_concat skew_data of
                   Inl e \<Rightarrow> Some (h2, Inl e)
                 | Inr curve \<Rightarrow>
                     (let (h3, result) = new_frame h2 (Curve curve)
                      in Some (h3, Inr (Some result, atm_iv)))))
         | _ \<Rightarrow> None)
      else None)"

text \<open>
  What a result of the store version stands for: the returned position replaced by the
  frame it names.
\<close>

definition read_result ::
  "store \<Rightarrow> error + (nat option \<times> real option) \<Rightarrow> error + (skew_row list option \<times> real option)" where
  "read_result h result =
     (case result of
        Inl e \<Rightarrow> Inl e
      | Inr (curve, atm_iv) \<Rightarrow> Inr (map_option (curve_at h) curve, atm_iv))"

section \<open>The two earlier revisions\<close>

text \<open>
  \<^verbatim>\<open>app.py\<close> and \<^verbatim>\<open>latest.py\<close> are earlier revisions of the same dashboard.
  \<^verbatim>\<open>app.py\<close> has no classifier and no skew: its curve is the valid part of the chain
  and its comparison looks at the implied volatility alone. \<^verbatim>\<open>latest.py\<close> has a
  classifier, and its \<^verbatim>\<open>main\<close> is cut off and never called. The functions of the
  two that differ from \<^verbatim>\<open>recent_trial.py\<close> where the properties below are concerned
  are modelled here, under their names with the file as a suffix.
\<close>

text \<open>
  \<^verbatim>\<open>classify_options\<close> of \<^verbatim>\<open>latest.py\<close>: no selection of valid rows comes first,
  so the four assignments write into the caller's frame, which is also what is returned;
  and the last assignment labels the strikes above the spot \<^verbatim>\<open>ITM\<close> as well.
\<close>

definition classify_options_latest :: "store \<Rightarrow> nat \<Rightarrow> real \<Rightarrow> (store \<times> nat) option" where
  "classify_options_latest h options_df spot_price =
     (if options_df < length h then
        (case h ! options_df of
           Chain rows \<Rightarrow>
             (let h1 = assign_moneyness h options_df OTM;
                  h2 = assign_moneyness_where h1 options_df (\<lambda>r. strikePrice r = spot_price) ATM;
                  h3 = assign_moneyness_where h2 options_df (\<lambda>r. strikePrice r < spot_price) ITM;
                  h4 = assign_moneyness_where h3 options_df (\<lambda>r. strikePrice r > spot_price) ITM
              in Some (h4, options_df))
         | _ \<Rightarrow> None)
      else None)"

text \<open>
  \<^verbatim>\<open>calculate_volatility_skew\<close> of \<^verbatim>\<open>app.py\<close>: the valid rows, restricted to the
  three columns of the chain.
\<close>

definition calculate_volatility_skew_app :: "option_row list \<Rightarrow> option_row list" where
  "calculate_volatility_skew_app options_df = positive_iv options_df"

text \<open>
  A Python dictionary from key to implied volatility, as the list of its items in
  insertion order: storing under a key that is present replaces the value in place.
\<close>

fun dict_store :: "(real \<times> string) \<Rightarrow> real \<Rightarrow> ((real \<times> string) \<times> real) list
    \<Rightarrow> ((real \<times> string) \<times> real) list" where
  "dict_store k v [] = [(k, v)]"
| "dict_store k v ((k', v') # items) =
     (if k = k' then (k, v) # items else (k', v') # dict_store k v items)"

text \<open>
  \<^verbatim>\<open>{(row['strikePrice'], row['expiryDate']): row['impliedVolatility'] for _, row in
  skew.iterrows()}\<close>
\<close>

definition iv_dict :: "option_row list \<Rightarrow> ((real \<times> string) \<times> real) list" where
  "iv_dict skew_df =
     foldl (\<lambda>d r. dict_store (strikePrice r, expiryDate r) (impliedVolatility r) d) [] skew_df"

text \<open>
  \<^verbatim>\<open>compare_skews\<close> of \<^verbatim>\<open>app.py\<close>, which \<^verbatim>\<open>main\<close> calls only when both
  baseline files exist. A change is the tuple of strike, expiry, current and baseline
  implied volatility.
\<close>

definition compare_skews_app ::
  "option_row list \<Rightarrow> option_row list \<Rightarrow> real \<Rightarrow> (real \<times> string \<times> real \<times> real) list" where
  "compare_skews_app baseline_skew current_skew threshold =
     (let baseline_dict = iv_dict baseline_skew;
          current_dict = iv_dict current_skew
      in concat (map (\<lambda>(key, current_iv).
            (case map_of baseline_dict key of
               None \<Rightarrow> []
             | Some baseline_iv \<Rightarrow>
                 if \<bar>current_iv - baseline_iv\<bar> > threshold
                 then [(fst key, snd key, current_iv, baseline_iv)] else []))
          current_dict))"

section \<open>Example data\<close>

text \<open>
  A chain of two expiries at spot price 100: the first expiry has a quote at the spot
  and an unquoted strike, the second has no quote at the spot.
\<close>

definition chain_example :: "option_row list" where
  "chain_example =
     [\<lparr>strikePrice = 95, expiryDate = ''2024-01-25'', impliedVolatility = 0.24\<rparr>,
      \<lparr>strikePrice = 100, expiryDate = ''2024-01-25'', impliedVolatility = 0.20\<rparr>,
      \<lparr>strikePrice = 105, expiryDate = ''2024-01-25'', impliedVolatility = 0.23\<rparr>,
      \<lparr>strikePrice = 110, expiryDate = ''2024-01-25'', impliedVolatility = 0\<rparr>,
      \<lparr>strikePrice = 95, expiryDate = ''2024-02-01'', impliedVolatility = 0.22\<rparr>,
      \<lparr>strikePrice = 105, expiryDate = ''2024-02-01'', impliedVolatility = 0.19\<rparr>]"

definition classified_example :: "classified_row list" where
  "classified_example =
     [\<lparr>strikePrice = 95, expiryDate = ''2024-01-25'', impliedVolatility = 0.24, moneyness = ITM\<rparr>,
      \<lparr>strikePrice = 100, expiryDate = ''2024-01-25'', impliedVolatility = 0.20, moneyness = ATM\<rparr>,
      \<lparr>strikePrice = 105, expiryDate = ''2024-01-25'', impliedVolatility = 0.23, moneyness = OTM\<rparr>,
      \<lparr>strikePrice = 95, expiryDate = ''2024-02-01'', impliedVolatility = 0.22, moneyness = ITM\<rparr>,
      \<lparr>strikePrice = 105, expiryDate = ''2024-02-01'', impliedVolatility = 0.19, moneyness = OTM\<rparr>]"

definition curve_example :: "skew_row list" where
  "curve_example =
     [\<lparr>strikePrice = 95, expiryDate = ''2024-01-25'', impliedVolatility = 0.24, moneyness = ITM,
        skew = 0.04, ATM_IV = 0.20\<rparr>,
      \<lparr>strikePrice = 100, expiryDate = ''2024-01-25'', impliedVolatility = 0.20, moneyness = ATM,
        skew = 0, ATM_IV = 0.20\<rparr>,
      \<lparr>strikePrice = 105, expiryDate = ''2024-01-25'', impliedVolatility = 0.23, moneyness = OTM,
        skew = 0.03, ATM_IV = 0.20\<rparr>]"

text \<open>The second scenario of the specification: one expiry, strikes 95 and 100, spot price 105.\<close>

definition no_atm_example :: "option_row list" where
  "no_atm_example =
     [\<lparr>strikePrice = 95, expiryDate = ''2024-02-01'', impliedVolatility = 0.22\<rparr>,
      \<lparr>strikePrice = 100, expiryDate = ''2024-02-01'', impliedVolatility = 0.19\<rparr>]"

text \<open>One quote above a spot price of 100.\<close>

definition above_spot_example :: "option_row list" where
  "above_spot_example =
     [\<lparr>strikePrice = 110, expiryDate = ''2024-01-25'', impliedVolatility = 0.25\<rparr>]"

text \<open>
  Curves for the drift detector at spot price 100. Against the baseline, the first current
  curve moves the strike below the spot only; the second moves the quote at the spot by
  0.07 and has an expiry the baseline lacks.
\<close>

definition baseline_example :: "skew_row list" where
  "baseline_example =
     [\<lparr>strikePrice = 95, expiryDate = ''2024-01-25'', impliedVolatility = 0.24, moneyness = ITM,
        skew = 0.04, ATM_IV = 0.20\<rparr>,
      \<lparr>strikePrice = 100, expiryDate = ''2024-01-25'', impliedVolatility = 0.20, moneyness = ATM,
        skew = 0, ATM_IV = 0.20\<rparr>]"

definition current_example :: "skew_row list" where
  "current_example =
     [\<lparr>strikePrice = 95, expiryDate = ''2024-01-25'', impliedVolatility = 0.34, moneyness = ITM,
        skew = 0.14, ATM_IV = 0.20\<rparr>,
      \<lparr>strikePrice = 100, expiryDate = ''2024-01-25'', impliedVolatility = 0.20, moneyness = ATM,
        skew = 0, ATM_IV = 0.20\<rparr>]"

definition current_atm_example :: "skew_row list" where
  "current_atm_example =
     [\<lparr>strikePrice = 95, expiryDate = ''2024-01-25'', impliedVolatility = 0.31, moneyness = ITM,
        skew = 0.04, ATM_IV = 0.27\<rparr>,
      \<lparr>strikePrice = 100, expiryDate = ''2024-01-25'', impliedVolatility = 0.27, moneyness = ATM,
        skew = 0, ATM_IV = 0.27\<rparr>,
      \<lparr>strikePrice = 100, expiryDate = ''2024-02-29'', impliedVolatility = 0.40, moneyness = ATM,
        skew = 0, ATM_IV = 0.40\<rparr>]"

section \<open>Properties of the classifier\<close>

lemma classify_options_map:
  "classify_options options_df spot_price = map (classify_row spot_price) (positive_iv options_df)"
  by (simp add: classify_options_def set_moneyness_def loc_moneyness_def classify_row_def Let_def)

lemma positive_iv_idem: "positive_iv (positive_iv df) = positive_iv df"
  by (simp add: positive_iv_def)

lemma impliedVolatility_classify_row [simp]:
  "impliedVolatility (classify_row spot_price r) = impliedVolatility r"
  by (simp add: classify_row_def)

lemma positive_iv_classify:
  "positive_iv (classify_options options_df spot_price) = classify_options options_df spot_price"
  unfolding classify_options_map positive_iv_def
  by (induction options_df) simp_all

section \<open>Properties of the skew calculator\<close>

lemma skew_loop_concat:
  "concat (fst (skew_loop gs acc x)) = concat acc @ concat (map (\<lambda>p. group_rows (snd p)) gs)"
proof (induction gs arbitrary: acc x)
  case Nil
  show ?case by simp
next
  case (Cons p gs)
  obtain e g where p: "p = (e, g)" by (cases p)
  show ?case
    unfolding p by (cases "atm_mean g") (simp_all add: Cons.IH group_rows_def)
qed

lemma skew_loop_empty:
  "fst (skew_loop gs acc x) = [] \<longleftrightarrow> acc = [] \<and> (\<forall>p \<in> set gs. atm_mean (snd p) = None)"
proof (induction gs arbitrary: acc x)
  case Nil
  show ?case by simp
next
  case (Cons p gs)
  obtain e g where p: "p = (e, g)" by (cases p)
  show ?case
    unfolding p by (cases "atm_mean g") (simp_all add: Cons.IH)
qed

lemma groupby_expiryDate_keys:
  "set (map fst (groupby_expiryDate df)) = expiryDate ` set df"
  by (simp add: groupby_expiryDate_def o_def)

lemma groupby_expiryDate_snd:
  "p \<in> set (groupby_expiryDate df) \<Longrightarrow> snd p = filter (\<lambda>x. expiryDate x = fst p) df"
  by (auto simp: groupby_expiryDate_def)

lemma groupby_expiryDate_member:
  "r \<in> set df \<Longrightarrow>
     (expiryDate r, filter (\<lambda>x. expiryDate x = expiryDate r) df) \<in> set (groupby_expiryDate df)"
  by (simp add: groupby_expiryDate_def image_iff) blast

lemma group_rows_member:
  "s \<in> set (group_rows g) \<longleftrightarrow> (\<exists>a r. atm_mean g = Some a \<and> r \<in> set g \<and> s = with_skew a r)"
  by (cases "atm_mean g") (auto simp: group_rows_def)

lemma calculate_volatility_skew_concat:
  assumes "calculate_volatility_skew df = Inr (Some curve, last_atm)"
  shows "curve = concat (map (\<lambda>p. group_rows (snd p)) (groupby_expiryDate (positive_iv df)))"
proof -
  let ?res = "skew_loop (groupby_expiryDate (positive_iv df)) [] None"
  from assms have "pd_concat (fst ?res) = Inr curve"
    by (simp add: calculate_volatility_skew_def Let_def split_beta split: if_splits sum.splits)
  then have "curve = concat (fst ?res)"
    by (simp add: pd_concat_def split: if_splits)
  then show ?thesis
    by (simp add: skew_loop_concat)
qed

lemma calculate_volatility_skew_rows:
  assumes "calculate_volatility_skew df = Inr (Some curve, last_atm)"
  shows "s \<in> set curve \<longleftrightarrow>
     (\<exists>a r. r \<in> set (positive_iv df) \<and>
        atm_mean (filter (\<lambda>x. expiryDate x = expiryDate r) (positive_iv df)) = Some a \<and>
        s = with_skew a r)"
proof
  let ?f = "positive_iv df"
  assume "s \<in> set curve"
  then obtain p where p: "p \<in> set (groupby_expiryDate ?f)" and s: "s \<in> set (group_rows (snd p))"
    unfolding calculate_volatility_skew_concat [OF assms] by auto
  from s obtain a r where a: "atm_mean (snd p) = Some a" and r: "r \<in> set (snd p)"
      and sr: "s = with_skew a r"
    unfolding group_rows_member by blast
  have sp: "snd p = filter (\<lambda>x. expiryDate x = fst p) ?f"
    by (rule groupby_expiryDate_snd [OF p])
  from r sp have rf: "r \<in> set ?f" and e: "expiryDate r = fst p" by auto
  from a sp e have "atm_mean (filter (\<lambda>x. expiryDate x = expiryDate r) ?f) = Some a" by simp
  with rf sr show "\<exists>a r. r \<in> set ?f \<and>
        atm_mean (filter (\<lambda>x. expiryDate x = expiryDate r) ?f) = Some a \<and> s = with_skew a r"
    by blast
next
  let ?f = "positive_iv df"
  assume "\<exists>a r. r \<in> set ?f \<and>
        atm_mean (filter (\<lambda>x. expiryDate x = expiryDate r) ?f) = Some a \<and> s = with_skew a r"
  then obtain a r where r: "r \<in> set ?f"
      and a: "atm_mean (filter (\<lambda>x. expiryDate x = expiryDate r) ?f) = Some a"
      and sr: "s = with_skew a r" by blast
  let ?g = "filter (\<lambda>x. expiryDate x = expiryDate r) ?f"
  have "(expiryDate r, ?g) \<in> set (groupby_expiryDate ?f)"
    by (rule groupby_expiryDate_member [OF r])
  moreover have "s \<in> set (group_rows ?g)"
    unfolding group_rows_member using a r sr by auto
  ultimately show "s \<in> set curve"
    unfolding calculate_volatility_skew_concat [OF assms] by force
qed

lemma classify_example: "classify_options chain_example 100 = classified_example"
  by (simp add: chain_example_def classified_example_def classify_options_def positive_iv_def
      set_moneyness_def loc_moneyness_def)

lemma groupby_example:
  "groupby_expiryDate classified_example =
     [(''2024-01-25'', take 3 classified_example), (''2024-02-01'', drop 3 classified_example)]"
  by (simp add: classified_example_def groupby_expiryDate_def)

lemma calculate_example:
  "calculate_volatility_skew classified_example = Inr (Some curve_example, None)"
  by (simp add: classified_example_def curve_example_def calculate_volatility_skew_def
      positive_iv_def groupby_expiryDate_def atm_mean_def series_mean_def with_skew_def
      pd_concat_def)


lemma with_skew_simps [simp]:
  "strikePrice (with_skew a r) = strikePrice r"
  "expiryDate (with_skew a r) = expiryDate r"
  "impliedVolatility (with_skew a r) = impliedVolatility r"
  "moneyness (with_skew a r) = moneyness r"
  "skew (with_skew a r) = impliedVolatility r - a"
  "ATM_IV (with_skew a r) = a"
  by (simp_all add: with_skew_def)

lemma classify_row_simps [simp]:
  "strikePrice (classify_row spot_price q) = strikePrice q"
  "expiryDate (classify_row spot_price q) = expiryDate q"
  by (simp_all add: classify_row_def)

lemma atm_mean_Some:
  "atm_mean (filter (\<lambda>x. expiryDate x = e) df) = Some a \<longleftrightarrow>
     map impliedVolatility (filter (\<lambda>x. expiryDate x = e \<and> moneyness x = ATM) df) \<noteq> [] \<and>
     a = sum_list (map impliedVolatility (filter (\<lambda>x. expiryDate x = e \<and> moneyness x = ATM) df)) /
         real (length (map impliedVolatility (filter (\<lambda>x. expiryDate x = e \<and> moneyness x = ATM) df)))"
  by (auto simp: atm_mean_def series_mean_def)

lemma atm_mean_None:
  "atm_mean g = None \<longleftrightarrow> (\<forall>r \<in> set g. moneyness r \<noteq> ATM)"
  by (simp add: atm_mean_def series_mean_def filter_empty_conv)

lemma sum_list_pos:
  fixes xs :: "real list"
  shows "xs \<noteq> [] \<Longrightarrow> \<forall>x \<in> set xs. 0 < x \<Longrightarrow> 0 < sum_list xs"
  by (induction xs) (auto intro: add_pos_nonneg sum_list_nonneg less_imp_le)

lemma atm_mean_pos:
  assumes "atm_mean g = Some a" and "\<forall>r \<in> set g. 0 < impliedVolatility r"
  shows "0 < a"
proof -
  let ?xs = "map impliedVolatility (filter (\<lambda>r. moneyness r = ATM) g)"
  from assms(1) have ne: "?xs \<noteq> []" and a: "a = sum_list ?xs / real (length ?xs)"
    by (auto simp: atm_mean_def series_mean_def split: if_splits)
  from assms(2) have "\<forall>x \<in> set ?xs. 0 < x" by auto
  with ne have "0 < sum_list ?xs" by (rule sum_list_pos)
  moreover from ne have "0 < real (length ?xs)" by simp
  ultimately show ?thesis unfolding a by (rule divide_pos_pos)
qed

text \<open>
  The rule of the classifier of \<^verbatim>\<open>recent_trial.py\<close>: it keeps the rows with a
  positive implied volatility, in order, and labels each of them by its strike alone,
  \<open>ATM\<close> when the strike equals the spot price, \<open>ITM\<close> when it is below and
  \<open>OTM\<close> when it is above.
\<close>

theorem classify_options_rule:
  "classify_options options_df spot_price =
     map (\<lambda>q. \<lparr>strikePrice = strikePrice q, expiryDate = expiryDate q,
                impliedVolatility = impliedVolatility q,
                moneyness = (if strikePrice q = spot_price then ATM
                             else if strikePrice q < spot_price then ITM else OTM)\<rparr>)
         (filter (\<lambda>q. impliedVolatility q > 0) options_df)
   \<and> (\<forall>r \<in> set (classify_options options_df spot_price).
         (strikePrice r = spot_price \<longrightarrow> moneyness r = ATM) \<and>
         (strikePrice r < spot_price \<longrightarrow> moneyness r = ITM) \<and>
         (strikePrice r > spot_price \<longrightarrow> moneyness r = OTM))"
  by (auto simp: classify_options_map classify_row_def positive_iv_def)

theorem classify_options_rule_witness:
  "classify_options chain_example 100 = classified_example \<and>
   map moneyness (classify_options chain_example 100) = [ITM, ATM, OTM, ITM, OTM]"
  using classify_options_rule [of chain_example 100]
  by (simp add: chain_example_def classified_example_def)

text \<open>
  Claim C1. In the curve computed from a snapshot and a spot price, every row has a skew
  equal to its implied volatility minus its \<open>ATM_IV\<close>, and its \<open>ATM_IV\<close> is the
  arithmetic mean of the implied volatilities of the ATM-classified quotes of its expiry,
  of which there is at least one.
\<close>

theorem skew_relative_to_atm_mean:
  assumes "calculate_volatility_skew (classify_options snapshot spot_price) = Inr (Some curve, last_atm)"
    and "s \<in> set curve"
    and "atm_ivs = map impliedVolatility
           (filter (\<lambda>r. expiryDate r = expiryDate s \<and> moneyness r = ATM)
              (classify_options snapshot spot_price))"
  shows "atm_ivs \<noteq> [] \<and> skew s = impliedVolatility s - ATM_IV s \<and>
         ATM_IV s = sum_list atm_ivs / real (length atm_ivs)"
proof -
  let ?c = "classify_options snapshot spot_price"
  from assms(2) obtain a r where r: "r \<in> set ?c"
      and a: "atm_mean (filter (\<lambda>x. expiryDate x = expiryDate r) ?c) = Some a"
      and s: "s = with_skew a r"
    unfolding calculate_volatility_skew_rows [OF assms(1)] positive_iv_classify by blast
  from s have e: "expiryDate s = expiryDate r" by simp
  from a show ?thesis
    unfolding atm_mean_Some assms(3) e by (simp add: s)
qed

theorem skew_relative_to_atm_mean_witness:
  "calculate_volatility_skew (classify_options chain_example 100) = Inr (Some curve_example, None)
   \<and> curve_example ! 0 \<in> set curve_example
   \<and> [0.20] \<noteq> ([] :: real list)
   \<and> skew (curve_example ! 0) = impliedVolatility (curve_example ! 0) - ATM_IV (curve_example ! 0)
   \<and> ATM_IV (curve_example ! 0) = sum_list [0.20] / real (length [0.20 :: real])"
proof -
  have c: "calculate_volatility_skew (classify_options chain_example 100) = Inr (Some curve_example, None)"
    by (simp add: classify_example calculate_example)
  have m: "curve_example ! 0 \<in> set curve_example"
    by (simp add: curve_example_def)
  have l: "[0.20 :: real] = map impliedVolatility
           (filter (\<lambda>r. expiryDate r = expiryDate (curve_example ! 0) \<and> moneyness r = ATM)
              (classify_options chain_example 100))"
    by (simp add: classify_example classified_example_def curve_example_def)
  from skew_relative_to_atm_mean [OF c m l] c m show ?thesis by simp
qed

text \<open>
  Claim C3. An expiry without any ATM-classified quote has no row in the computed curve,
  and no reference is made up for it: the \<open>ATM_IV\<close> of every row of the curve is
  different from zero, being the mean of the positive implied volatilities of the ATM
  quotes of its own expiry.
\<close>

theorem no_atm_group_excluded:
  assumes "calculate_volatility_skew (classify_options snapshot spot_price) = Inr (Some curve, last_atm)"
    and "\<forall>r \<in> set (classify_options snapshot spot_price). expiryDate r = e \<longrightarrow> moneyness r \<noteq> ATM"
  shows "(\<forall>s \<in> set curve. expiryDate s \<noteq> e) \<and> (\<forall>s \<in> set curve. ATM_IV s \<noteq> 0)"
proof -
  let ?c = "classify_options snapshot spot_price"
  have pos: "\<forall>r \<in> set ?c. 0 < impliedVolatility r"
    by (auto simp: classify_options_map classify_row_def positive_iv_def)
  have "expiryDate s \<noteq> e \<and> ATM_IV s \<noteq> 0" if "s \<in> set curve" for s
  proof -
    from that obtain a r where r: "r \<in> set ?c"
        and a: "atm_mean (filter (\<lambda>x. expiryDate x = expiryDate r) ?c) = Some a"
        and s: "s = with_skew a r"
      unfolding calculate_volatility_skew_rows [OF assms(1)] positive_iv_classify by blast
    from a have "\<not> (\<forall>x \<in> set (filter (\<lambda>x. expiryDate x = expiryDate r) ?c). moneyness x \<noteq> ATM)"
      unfolding atm_mean_None [symmetric] by simp
    then obtain x where "x \<in> set ?c" and "expiryDate x = expiryDate r" and "moneyness x = ATM"
      by auto
    with assms(2) have "expiryDate r \<noteq> e" by auto
    moreover from a pos have "0 < a" by (auto intro: atm_mean_pos)
    ultimately show ?thesis by (simp add: s)
  qed
  then show ?thesis by blast
qed

theorem no_atm_group_excluded_witness:
  "calculate_volatility_skew (classify_options chain_example 100) = Inr (Some curve_example, None)
   \<and> ATM \<notin> set (map moneyness
         (filter (\<lambda>r. expiryDate r = ''2024-02-01'') (classify_options chain_example 100)))
   \<and> ''2024-02-01'' \<notin> set (map expiryDate curve_example)
   \<and> 0 \<notin> set (map ATM_IV curve_example)"
proof -
  have c: "calculate_volatility_skew (classify_options chain_example 100) = Inr (Some curve_example, None)"
    by (simp add: classify_example calculate_example)
  have n: "\<forall>r \<in> set (classify_options chain_example 100).
         expiryDate r = ''2024-02-01'' \<longrightarrow> moneyness r \<noteq> ATM"
    by (simp add: classify_example classified_example_def)
  have m: "ATM \<notin> set (map moneyness
         (filter (\<lambda>r. expiryDate r = ''2024-02-01'') (classify_options chain_example 100)))"
    by (simp add: classify_example classified_example_def)
  from no_atm_group_excluded [OF c n]
  have "''2024-02-01'' \<notin> set (map expiryDate curve_example)"
    and "0 \<notin> set (map ATM_IV curve_example)"
    by auto
  with c m show ?thesis by blast
qed

lemma classify_options_positive_iv:
  "classify_options (positive_iv snapshot) spot_price = classify_options snapshot spot_price"
  by (simp add: classify_options_map positive_iv_idem)

text \<open>
  Claim C4. A quote whose implied volatility is not positive is in no row of the computed
  curve: every row has a positive implied volatility and comes from a quote of the snapshot
  with a positive one, and the result is the same when the other quotes are removed from
  the snapshot beforehand, so they take no part in the grouping, the means or the skews.
\<close>

theorem invalid_quotes_excluded:
  assumes "calculate_volatility_skew (classify_options snapshot spot_price) = Inr (Some curve, last_atm)"
    and "s \<in> set curve"
  shows "0 < impliedVolatility s
     \<and> (\<exists>q \<in> set snapshot. 0 < impliedVolatility q \<and> strikePrice s = strikePrice q \<and>
           expiryDate s = expiryDate q \<and> impliedVolatility s = impliedVolatility q)
     \<and> calculate_volatility_skew
           (classify_options (filter (\<lambda>q. 0 < impliedVolatility q) snapshot) spot_price)
         = Inr (Some curve, last_atm)"
proof -
  let ?c = "classify_options snapshot spot_price"
  from assms(2) obtain a r where r: "r \<in> set ?c" and s: "s = with_skew a r"
    unfolding calculate_volatility_skew_rows [OF assms(1)] positive_iv_classify by blast
  from r obtain q where q: "q \<in> set snapshot" and iv: "0 < impliedVolatility q"
      and rq: "r = classify_row spot_price q"
    by (auto simp: classify_options_map positive_iv_def)
  have "0 < impliedVolatility s"
    using iv by (simp add: s rq)
  moreover have "\<exists>q \<in> set snapshot. 0 < impliedVolatility q \<and> strikePrice s = strikePrice q \<and>
           expiryDate s = expiryDate q \<and> impliedVolatility s = impliedVolatility q"
    using q iv by (auto simp: s rq)
  moreover have "calculate_volatility_skew
           (classify_options (filter (\<lambda>q. 0 < impliedVolatility q) snapshot) spot_price)
         = Inr (Some curve, last_atm)"
    using assms(1) classify_options_positive_iv [of snapshot spot_price]
    by (simp add: positive_iv_def)
  ultimately show ?thesis by blast
qed

theorem invalid_quotes_excluded_witness:
  "calculate_volatility_skew (classify_options chain_example 100) = Inr (Some curve_example, None)
   \<and> curve_example ! 2 \<in> set curve_example
   \<and> 0 < impliedVolatility (curve_example ! 2)
   \<and> (\<exists>q \<in> set chain_example. 0 < impliedVolatility q \<and>
         strikePrice (curve_example ! 2) = strikePrice q \<and>
         expiryDate (curve_example ! 2) = expiryDate q \<and>
         impliedVolatility (curve_example ! 2) = impliedVolatility q)
   \<and> calculate_volatility_skew
         (classify_options (filter (\<lambda>q. 0 < impliedVolatility q) chain_example) 100)
       = Inr (Some curve_example, None)"
proof -
  have c: "calculate_volatility_skew (classify_options chain_example 100) = Inr (Some curve_example, None)"
    by (simp add: classify_example calculate_example)
  have m: "curve_example ! 2 \<in> set curve_example"
    by (simp add: curve_example_def)
  from invalid_quotes_excluded [OF c m] c m show ?thesis by simp
qed

lemma calculate_volatility_skew_no_valid_quote:
  "positive_iv snapshot = [] \<Longrightarrow>
     calculate_volatility_skew (classify_options snapshot spot_price) = Inr (None, None)"
proof -
  assume "positive_iv snapshot = []"
  then have "classify_options snapshot spot_price = []"
    by (simp add: classify_options_map)
  then show ?thesis
    by (simp add: calculate_volatility_skew_def positive_iv_def)
qed

lemma calculate_volatility_skew_raises:
  assumes "positive_iv snapshot \<noteq> []"
    and "\<forall>q \<in> set snapshot. 0 < impliedVolatility q \<longrightarrow> strikePrice q \<noteq> spot_price"
  shows "calculate_volatility_skew (classify_options snapshot spot_price) = Inl ValueError"
proof -
  let ?c = "classify_options snapshot spot_price"
  from assms(1) have ne: "?c \<noteq> []" by (simp add: classify_options_map)
  from assms(2) have no: "\<forall>r \<in> set ?c. moneyness r \<noteq> ATM"
    by (auto simp: classify_options_map classify_row_def positive_iv_def)
  have "\<forall>p \<in> set (groupby_expiryDate ?c). atm_mean (snd p) = None"
  proof
    fix p assume "p \<in> set (groupby_expiryDate ?c)"
    then have "snd p = filter (\<lambda>x. expiryDate x = fst p) ?c" by (rule groupby_expiryDate_snd)
    with no show "atm_mean (snd p) = None" by (simp add: atm_mean_None)
  qed
  then have "fst (skew_loop (groupby_expiryDate ?c) [] None) = []"
    by (simp add: skew_loop_empty)
  with ne show ?thesis
    by (simp add: calculate_volatility_skew_def positive_iv_classify pd_concat_def split_beta Let_def)
qed

text \<open>
  Claim C9. A snapshot without any valid quote gives \<open>None\<close> in place of a curve
  (\<open>calculate_volatility_skew_no_valid_quote\<close>). A snapshot with valid quotes of which
  none sits at the spot price does not give an empty curve: \<^verbatim>\<open>pd.concat\<close> is called
  on the empty \<^verbatim>\<open>skew_data\<close> and raises
  (\<open>calculate_volatility_skew_raises\<close>). The theorem evaluates the code on the second
  scenario of the specification, one expiry with strikes 95 and 100 at spot price 105.
\<close>

theorem no_atm_anywhere_raises:
  "calculate_volatility_skew (classify_options no_atm_example 105) = Inl ValueError"
  by (rule calculate_volatility_skew_raises) (simp_all add: no_atm_example_def positive_iv_def)

section \<open>Properties of the drift detector\<close>

lemma set_merge_on_key:
  "set (merge_on_key left right) =
     {(l, r). l \<in> set left \<and> r \<in> set right \<and> strikePrice r = strikePrice l \<and>
              expiryDate r = expiryDate l}"
  by (auto simp: merge_on_key_def)

lemma reported_compare_skews:
  "reported_changes (compare_skews (Some baseline) (Some current) threshold) =
     map change_columns
       (filter (\<lambda>m. \<bar>merged_ATM_IV_change m\<bar> > threshold \<or> \<bar>merged_skew_change m\<bar> > threshold)
          (filter (\<lambda>m. moneyness (fst m) = ATM) (merge_on_key current baseline)))"
  by (simp add: compare_skews_def reported_changes_def Let_def)

lemma compare_skews_example:
  "compare_skews (Some baseline_example) (Some current_atm_example) (1/20) =
     Some [\<lparr>strikePrice = 100, expiryDate = ''2024-01-25'', ATM_IV_change = 0.07, skew_change = 0\<rparr>]"
  by (simp add: compare_skews_def baseline_example_def current_atm_example_def merge_on_key_def
      merged_ATM_IV_change_def merged_skew_change_def change_columns_def)

lemma compare_skews_example2:
  "compare_skews (Some baseline_example) (Some current_atm_example) (1/10) = None"
  by (simp add: compare_skews_def baseline_example_def current_atm_example_def merge_on_key_def
      merged_ATM_IV_change_def merged_skew_change_def change_columns_def)

text \<open>
  Claim C6. Without a baseline the drift detector reports no change, whatever the current
  curve and the threshold are: it returns \<open>None\<close>, which stands for no record.
\<close>

theorem compare_skews_no_baseline:
  "compare_skews None current_skew threshold = None \<and>
   reported_changes (compare_skews None current_skew threshold) = []"
  by (simp add: compare_skews_def reported_changes_def)

theorem compare_skews_no_baseline_witness:
  "compare_skews None (Some current_example) (1/20) = None \<and>
   reported_changes (compare_skews None (Some current_example) (1/20)) = []"
  by (rule compare_skews_no_baseline)

text \<open>
  Claim C8. For the same baseline and current curve, the records reported at a threshold
  are among those reported at any smaller threshold.
\<close>

theorem compare_skews_threshold_antimono:
  assumes "t1 < t2"
  shows "set (reported_changes (compare_skews baseline_skew current_skew t2))
       \<subseteq> set (reported_changes (compare_skews baseline_skew current_skew t1))"
proof (cases baseline_skew)
  case None
  then show ?thesis by (simp add: compare_skews_def reported_changes_def)
next
  case b: (Some baseline)
  show ?thesis
  proof (cases current_skew)
    case None
    then show ?thesis by (simp add: compare_skews_def reported_changes_def split: option.splits)
  next
    case (Some current)
    show ?thesis
      unfolding b Some reported_compare_skews using assms by auto
  qed
qed

theorem compare_skews_threshold_antimono_witness:
  "(1/20 :: real) < 1/10 \<and>
   set (reported_changes (compare_skews (Some baseline_example) (Some current_atm_example) (1/10)))
     \<subseteq> set (reported_changes (compare_skews (Some baseline_example) (Some current_atm_example) (1/20)))"
proof -
  have h: "(1/20 :: real) < 1/10" by simp
  from compare_skews_threshold_antimono [OF h] h show ?thesis by blast
qed

text \<open>
  Claim C2, as amended. The drift detector pairs every current row with every baseline row
  of the same strike and expiry, and reports a pair exactly when the current row is
  classified ATM and the absolute change of the implied volatility or of the skew exceeds
  the threshold. A key that is in one curve only is in no pair and gives no record.
\<close>

theorem compare_skews_atm_only:
  "set (reported_changes (compare_skews (Some baseline) (Some current) threshold)) =
     {\<lparr>strikePrice = strikePrice c, expiryDate = expiryDate c,
       ATM_IV_change = impliedVolatility c - impliedVolatility b,
       skew_change = skew c - skew b\<rparr> | c b.
       c \<in> set current \<and> b \<in> set baseline \<and>
       strikePrice b = strikePrice c \<and> expiryDate b = expiryDate c \<and>
       moneyness c = ATM \<and>
       (\<bar>impliedVolatility c - impliedVolatility b\<bar> > threshold \<or>
        \<bar>skew c - skew b\<bar> > threshold)}"
proof (intro set_eqI iffI)
  fix x
  assume "x \<in> set (reported_changes (compare_skews (Some baseline) (Some current) threshold))"
  then obtain c b where "(c, b) \<in> set (merge_on_key current baseline)"
      and "moneyness c = ATM"
      and "\<bar>merged_ATM_IV_change (c, b)\<bar> > threshold \<or> \<bar>merged_skew_change (c, b)\<bar> > threshold"
      and "x = change_columns (c, b)"
    unfolding reported_compare_skews by auto
  then have "c \<in> set current \<and> b \<in> set baseline \<and>
       strikePrice b = strikePrice c \<and> expiryDate b = expiryDate c \<and> moneyness c = ATM \<and>
       (\<bar>impliedVolatility c - impliedVolatility b\<bar> > threshold \<or> \<bar>skew c - skew b\<bar> > threshold) \<and>
       x = \<lparr>strikePrice = strikePrice c, expiryDate = expiryDate c,
            ATM_IV_change = impliedVolatility c - impliedVolatility b,
            skew_change = skew c - skew b\<rparr>"
    by (simp add: set_merge_on_key change_columns_def merged_ATM_IV_change_def
        merged_skew_change_def)
  then show "x \<in> {\<lparr>strikePrice = strikePrice c, expiryDate = expiryDate c,
       ATM_IV_change = impliedVolatility c - impliedVolatility b,
       skew_change = skew c - skew b\<rparr> | c b.
       c \<in> set current \<and> b \<in> set baseline \<and>
       strikePrice b = strikePrice c \<and> expiryDate b = expiryDate c \<and>
       moneyness c = ATM \<and>
       (\<bar>impliedVolatility c - impliedVolatility b\<bar> > threshold \<or>
        \<bar>skew c - skew b\<bar> > threshold)}"
    by blast
next
  fix x
  assume "x \<in> {\<lparr>strikePrice = strikePrice c, expiryDate = expiryDate c,
       ATM_IV_change = impliedVolatility c - impliedVolatility b,
       skew_change = skew c - skew b\<rparr> | c b.
       c \<in> set current \<and> b \<in> set baseline \<and>
       strikePrice b = strikePrice c \<and> expiryDate b = expiryDate c \<and>
       moneyness c = ATM \<and>
       (\<bar>impliedVolatility c - impliedVolatility b\<bar> > threshold \<or>
        \<bar>skew c - skew b\<bar> > threshold)}"
  then obtain c b where x: "x = \<lparr>strikePrice = strikePrice c, expiryDate = expiryDate c,
       ATM_IV_change = impliedVolatility c - impliedVolatility b,
       skew_change = skew c - skew b\<rparr>"
      and cb: "c \<in> set current" "b \<in> set baseline"
        "strikePrice b = strikePrice c" "expiryDate b = expiryDate c"
      and atm: "moneyness c = ATM"
      and sig: "\<bar>impliedVolatility c - impliedVolatility b\<bar> > threshold \<or>
        \<bar>skew c - skew b\<bar> > threshold"
    by blast
  from cb have m: "(c, b) \<in> set (merge_on_key current baseline)"
    by (simp add: set_merge_on_key)
  have xc: "x = change_columns (c, b)"
    by (simp add: x change_columns_def merged_ATM_IV_change_def merged_skew_change_def)
  from sig have sig': "\<bar>merged_ATM_IV_change (c, b)\<bar> > threshold \<or>
      \<bar>merged_skew_change (c, b)\<bar> > threshold"
    by (simp add: merged_ATM_IV_change_def merged_skew_change_def)
  have "(c, b) \<in> set (filter (\<lambda>m. \<bar>merged_ATM_IV_change m\<bar> > threshold \<or> \<bar>merged_skew_change m\<bar> > threshold)
          (filter (\<lambda>m. moneyness (fst m) = ATM) (merge_on_key current baseline)))"
    using m atm sig' by simp
  then have "change_columns (c, b) \<in> change_columns ` set (filter (\<lambda>m. \<bar>merged_ATM_IV_change m\<bar> > threshold \<or> \<bar>merged_skew_change m\<bar> > threshold)
          (filter (\<lambda>m. moneyness (fst m) = ATM) (merge_on_key current baseline)))"
    by (rule imageI)
  then show "x \<in> set (reported_changes (compare_skews (Some baseline) (Some current) threshold))"
    unfolding reported_compare_skews xc set_map .
qed

theorem compare_skews_atm_only_witness:
  "\<lparr>strikePrice = 100, expiryDate = ''2024-01-25'', ATM_IV_change = 0.07, skew_change = 0\<rparr>
     \<in> set (reported_changes
              (compare_skews (Some baseline_example) (Some current_atm_example) (1/20)))"
  unfolding compare_skews_atm_only
  apply (rule CollectI)
  apply (rule exI [of _ "current_atm_example ! 1"])
  apply (rule exI [of _ "baseline_example ! 1"])
  apply (simp add: baseline_example_def current_atm_example_def)
  done

text \<open>
  Claim C2, as stated, fails on a key whose current row is not ATM: the strike 95 is in both
  curves, its implied volatility and its skew move by 0.10, more than the threshold 0.05,
  and nothing is reported.
\<close>

theorem compare_skews_non_atm_counterexample:
  "current_example ! 0 \<in> set current_example \<and> baseline_example ! 0 \<in> set baseline_example \<and>
   strikePrice (current_example ! 0) = strikePrice (baseline_example ! 0) \<and>
   expiryDate (current_example ! 0) = expiryDate (baseline_example ! 0) \<and>
   \<bar>impliedVolatility (current_example ! 0) - impliedVolatility (baseline_example ! 0)\<bar> > 1/20 \<and>
   \<bar>skew (current_example ! 0) - skew (baseline_example ! 0)\<bar> > 1/20 \<and>
   compare_skews (Some baseline_example) (Some current_example) (1/20) = None \<and>
   reported_changes (compare_skews (Some baseline_example) (Some current_example) (1/20)) = []"
  by (simp add: compare_skews_def baseline_example_def current_example_def merge_on_key_def
      merged_ATM_IV_change_def merged_skew_change_def reported_changes_def)

section \<open>Properties of the baseline store\<close>

lemma text_moneyness_text [simp]: "text_moneyness (moneyness_text l) = Some l"
  by (cases l) (simp_all add: text_moneyness_def)

lemma read_row_csv_row [simp]: "read_row curve_columns (csv_row r) = Some r"
  by (simp add: read_row_def csv_row_def curve_columns_def)

lemma those_map_Some: "(\<And>x. x \<in> set xs \<Longrightarrow> f x = Some (g x)) \<Longrightarrow> those (map f xs) = Some (map g xs)"
  by (induction xs) simp_all

lemma read_csv_to_csv: "read_csv (to_csv df) = Inr df"
proof -
  have "those (map (read_row curve_columns) (map csv_row df)) = Some (map (\<lambda>r. r) df)"
    unfolding map_map by (rule those_map_Some) simp
  then show ?thesis by (simp add: read_csv_def to_csv_def)
qed

text \<open>
  Claim C7. Saving a curve under the file name of a side and loading that name again gives
  a baseline with the rows of the curve, each with its six fields as they were, in the
  same order; the file of the other side is left as it was.
\<close>

theorem save_load_round_trip:
  "load_baseline_skew (save_baseline_skew fs (Some curve) filename) filename = Inr (Some curve)
   \<and> (other \<noteq> filename \<longrightarrow>
        load_baseline_skew (save_baseline_skew fs (Some curve) filename) other =
        load_baseline_skew fs other)"
  by (simp add: load_baseline_skew_def save_baseline_skew_def read_csv_to_csv)

theorem save_load_round_trip_witness:
  "load_baseline_skew
     (save_baseline_skew (\<lambda>n. None) (Some curve_example) ''baseline_calls_skew.csv'')
     ''baseline_calls_skew.csv'' = Inr (Some curve_example)
   \<and> ''baseline_puts_skew.csv'' \<noteq> ''baseline_calls_skew.csv''
   \<and> load_baseline_skew
        (save_baseline_skew (\<lambda>n. None) (Some curve_example) ''baseline_calls_skew.csv'')
        ''baseline_puts_skew.csv'' = Inr None"
  using save_load_round_trip [of "\<lambda>n. None" curve_example "''baseline_calls_skew.csv''"
      "''baseline_puts_skew.csv''"]
  by (simp add: load_baseline_skew_def)

lemma to_csv_example:
  "to_csv [curve_example ! 1] =
     \<lparr>csv_header = [''strikePrice'', ''moneyness'', ''expiryDate'', ''impliedVolatility'',
                    ''skew'', ''ATM_IV''],
      csv_rows = [[Number 100, Text ''ATM'', Text ''2024-01-25'', Number 0.20, Number 0,
                   Number 0.20]]\<rparr>"
  by (simp add: to_csv_def csv_row_def curve_columns_def curve_example_def)

section \<open>Properties of the store versions\<close>

lemma prefix_list_update:
  "prefix h h' \<Longrightarrow> length h \<le> a \<Longrightarrow> prefix h (h'[a := x])"
  by (auto simp: prefix_def list_update_append)

lemma prefix_assign_moneyness:
  "prefix h h' \<Longrightarrow> length h \<le> a \<Longrightarrow> prefix h (assign_moneyness h' a v)"
  by (simp add: assign_moneyness_def prefix_list_update split: frame.splits)

lemma prefix_assign_moneyness_where:
  "prefix h h' \<Longrightarrow> length h \<le> a \<Longrightarrow> prefix h (assign_moneyness_where h' a sel v)"
  by (simp add: assign_moneyness_where_def prefix_list_update split: frame.splits)

lemma prefix_assign_skew:
  "prefix h h' \<Longrightarrow> length h \<le> a \<Longrightarrow> prefix h (assign_skew h' a v)"
  by (simp add: assign_skew_def prefix_list_update split: frame.splits)

lemma classify_options_store_eq:
  assumes "options_df < length h" and "h ! options_df = Chain rows"
  shows "classify_options_store h options_df spot_price =
           Some (h @ [Classified (classify_options rows spot_price)], length h)"
  using assms
  by (simp add: classify_options_store_def new_frame_def assign_moneyness_def
      assign_moneyness_where_def classify_options_def Let_def)

lemma skew_loop_store_prefix:
  "prefix h (fst (skew_loop_store h gs skew_data x))"
proof (induction gs arbitrary: h skew_data x)
  case Nil
  show ?case by simp
next
  case (Cons p gs)
  obtain e g where p: "p = (e, g)" by (cases p)
  show ?case
  proof (cases "atm_mean g")
    case None
    then show ?thesis unfolding p by (simp add: Cons.IH)
  next
    case (Some a)
    let ?h2 = "assign_skew (h @ [Classified g]) (length h) a"
    let ?sd = "skew_data @ [curve_at ?h2 (length h)]"
    have eq: "skew_loop_store h ((e, g) # gs) skew_data x = skew_loop_store ?h2 gs ?sd (Some a)"
      using Some by (simp add: new_frame_def Let_def)
    have 1: "prefix h ?h2" by (rule prefix_assign_skew) simp_all
    have 2: "prefix ?h2 (fst (skew_loop_store ?h2 gs ?sd (Some a)))"
      by (rule Cons.IH)
    from prefix_order.trans [OF 1 2] show ?thesis
      unfolding p eq .
  qed
qed

lemma skew_loop_store_result:
  "snd (skew_loop_store h gs skew_data x) = skew_loop gs skew_data x"
proof (induction gs arbitrary: h skew_data x)
  case Nil
  show ?case by simp
next
  case (Cons p gs)
  obtain e g where p: "p = (e, g)" by (cases p)
  show ?case
    unfolding p
    by (cases "atm_mean g")
       (simp_all add: Cons.IH new_frame_def assign_skew_def curve_at_def)
qed

lemma calculate_volatility_skew_store_eq:
  assumes "options_df < length h" and "h ! options_df = Classified rows"
  shows "\<exists>h' result. calculate_volatility_skew_store h options_df = Some (h', result) \<and>
           prefix h h' \<and> read_result h' result = calculate_volatility_skew rows"
proof (cases "positive_iv rows = []")
  case True
  with assms show ?thesis
    by (simp add: calculate_volatility_skew_store_def calculate_volatility_skew_def
        new_frame_def read_result_def)
next
  case False
  let ?h1 = "h @ [Classified (positive_iv rows)]"
  let ?gs = "groupby_expiryDate (positive_iv rows)"
  obtain h2 skew_data atm_iv where l: "skew_loop_store ?h1 ?gs [] None = (h2, skew_data, atm_iv)"
    by (cases "skew_loop_store ?h1 ?gs [] None") auto
  from skew_loop_store_prefix [of ?h1 ?gs "[]" None] l have "prefix ?h1 h2" by simp
  then have p2: "prefix h h2" by (auto simp: prefix_def)
  from skew_loop_store_result [of ?h1 ?gs "[]" None] l
  have r: "skew_loop ?gs [] None = (skew_data, atm_iv)" by simp
  show ?thesis
  proof (cases "skew_data = []")
    case True
    with assms False l r p2 show ?thesis
      by (simp add: calculate_volatility_skew_store_def calculate_volatility_skew_def
          new_frame_def read_result_def pd_concat_def)
  next
    case ne: False
    from p2 have "prefix h (h2 @ [Curve (concat skew_data)])" by (auto simp: prefix_def)
    with assms False l r ne show ?thesis
      by (simp add: calculate_volatility_skew_store_def calculate_volatility_skew_def
          new_frame_def read_result_def pd_concat_def curve_at_def)
  qed
qed

text \<open>
  In \<^verbatim>\<open>recent_trial.py\<close>, classifying a snapshot and computing its skew curve leave
  the snapshot as it was: both calls succeed, every frame that existed before them is in
  the store afterwards, unchanged and at its position, the classified frame is another
  object than the snapshot, and the frames the calls return are those of the functions
  above.
\<close>

theorem snapshot_unchanged:
  assumes "snapshot < length h" and "h ! snapshot = Chain rows"
  shows "\<exists>h1 classified h2 result.
     classify_options_store h snapshot spot_price = Some (h1, classified) \<and>
     calculate_volatility_skew_store h1 classified = Some (h2, result) \<and>
     prefix h h1 \<and> prefix h h2 \<and>
     h1 ! snapshot = Chain rows \<and> h2 ! snapshot = Chain rows \<and>
     classified \<noteq> snapshot \<and>
     h1 ! classified = Classified (classify_options rows spot_price) \<and>
     read_result h2 result = calculate_volatility_skew (classify_options rows spot_price)"
proof -
  let ?h1 = "h @ [Classified (classify_options rows spot_price)]"
  have c: "classify_options_store h snapshot spot_price = Some (?h1, length h)"
    by (rule classify_options_store_eq [OF assms])
  have "length h < length ?h1" and "?h1 ! length h = Classified (classify_options rows spot_price)"
    by simp_all
  from calculate_volatility_skew_store_eq [OF this]
  obtain h2 result where s: "calculate_volatility_skew_store ?h1 (length h) = Some (h2, result)"
      and p: "prefix ?h1 h2"
      and r: "read_result h2 result = calculate_volatility_skew (classify_options rows spot_price)"
    by blast
  from p obtain ys where h2: "h2 = h @ Classified (classify_options rows spot_price) # ys"
    by (auto simp: prefix_def)
  have "prefix h ?h1" and "prefix h h2" by (simp_all add: h2)
  moreover have "?h1 ! snapshot = Chain rows" and "h2 ! snapshot = Chain rows"
    using assms by (simp_all add: h2 nth_append)
  moreover have "length h \<noteq> snapshot" using assms(1) by simp
  moreover have "?h1 ! length h = Classified (classify_options rows spot_price)" by simp
  ultimately show ?thesis using c s r by blast
qed

theorem snapshot_unchanged_witness:
  "(0::nat) < length [Chain chain_example] \<and> [Chain chain_example] ! 0 = Chain chain_example \<and>
   (\<exists>h1 classified h2 result.
     classify_options_store [Chain chain_example] 0 100 = Some (h1, classified) \<and>
     calculate_volatility_skew_store h1 classified = Some (h2, result) \<and>
     prefix [Chain chain_example] h1 \<and> prefix [Chain chain_example] h2 \<and>
     h1 ! 0 = Chain chain_example \<and> h2 ! 0 = Chain chain_example \<and>
     classified \<noteq> 0 \<and>
     h1 ! classified = Classified (classify_options chain_example 100) \<and>
     read_result h2 result = calculate_volatility_skew (classify_options chain_example 100))"
proof -
  have a: "(0::nat) < length [Chain chain_example]" by simp
  have b: "[Chain chain_example] ! 0 = Chain chain_example" by simp
  from snapshot_unchanged [OF a b, of 100] a b show ?thesis by blast
qed

section \<open>Properties of the earlier revisions\<close>

lemma latest_labels:
  "loc_moneyness (\<lambda>r. strikePrice r > spot_price) ITM
     (loc_moneyness (\<lambda>r. strikePrice r < spot_price) ITM
        (loc_moneyness (\<lambda>r. strikePrice r = spot_price) ATM (set_moneyness OTM rows))) =
   map (\<lambda>q. \<lparr>strikePrice = strikePrice q, expiryDate = expiryDate q,
              impliedVolatility = impliedVolatility q,
              moneyness = (if strikePrice q = spot_price then ATM else ITM)\<rparr>) rows"
  by (auto simp: set_moneyness_def loc_moneyness_def)

lemma classify_options_latest_eq:
  assumes "options_df < length h" and "h ! options_df = Chain rows"
  shows "classify_options_latest h options_df spot_price =
     Some (h[options_df := Classified
              (map (\<lambda>q. \<lparr>strikePrice = strikePrice q, expiryDate = expiryDate q,
                         impliedVolatility = impliedVolatility q,
                         moneyness = (if strikePrice q = spot_price then ATM else ITM)\<rparr>) rows)],
           options_df)"
  unfolding latest_labels [symmetric] using assms
  by (simp add: classify_options_latest_def assign_moneyness_def assign_moneyness_where_def
      Let_def)

text \<open>
  Claim C5. The classifier is to label a strike above the spot price \<open>OTM\<close> and to have
  no side effect. The classifier of \<^verbatim>\<open>latest.py\<close> labels the strike 110 at spot
  price 100 \<open>ITM\<close>: its last assignment writes \<^verbatim>\<open>'ITM'\<close> where the strike is
  above the spot, as the one before it does where the strike is below. The classifier of
  \<^verbatim>\<open>recent_trial.py\<close> follows the rule.
\<close>

theorem classify_options_latest_above_spot:
  "classify_options_latest [Chain above_spot_example] 0 100 =
     Some ([Classified
        [\<lparr>strikePrice = 110, expiryDate = ''2024-01-25'', impliedVolatility = 0.25,
           moneyness = ITM\<rparr>]], 0)"
  by (simp add: classify_options_latest_eq above_spot_example_def)

text \<open>
  Claim C10. Classification is to leave the snapshot unchanged and to give its output as a
  separate value. The classifier of \<^verbatim>\<open>latest.py\<close> writes the column into the frame
  it is given and returns that frame: after the call the only frame of the store, at the
  position of the snapshot, is the classified one, and the position returned is that of
  the snapshot. The classifier of \<^verbatim>\<open>recent_trial.py\<close> leaves the snapshot alone.
\<close>

theorem classify_options_latest_overwrites_snapshot:
  "classify_options_latest [Chain no_atm_example] 0 105 =
     Some ([Classified
        [\<lparr>strikePrice = 95, expiryDate = ''2024-02-01'', impliedVolatility = 0.22,
           moneyness = ITM\<rparr>,
         \<lparr>strikePrice = 100, expiryDate = ''2024-02-01'', impliedVolatility = 0.19,
           moneyness = ITM\<rparr>]], 0)
   \<and> [Classified
        [\<lparr>strikePrice = 95, expiryDate = ''2024-02-01'', impliedVolatility = 0.22,
           moneyness = ITM\<rparr>,
         \<lparr>strikePrice = 100, expiryDate = ''2024-02-01'', impliedVolatility = 0.19,
           moneyness = ITM\<rparr>]] ! 0 \<noteq> Chain no_atm_example"
  by (simp add: classify_options_latest_eq no_atm_example_def)

lemma calculate_volatility_skew_app_valid:
  "r \<in> set (calculate_volatility_skew_app options_df) \<Longrightarrow>
     0 < impliedVolatility r \<and> r \<in> set options_df"
  by (simp add: calculate_volatility_skew_app_def positive_iv_def)

lemma compare_skews_app_antimono:
  assumes "t1 < t2"
  shows "set (compare_skews_app baseline_skew current_skew t2)
       \<subseteq> set (compare_skews_app baseline_skew current_skew t1)"
  using assms
  by (fastforce simp: compare_skews_app_def Let_def split: option.splits if_splits)

lemma compare_skews_app_example:
  "compare_skews_app
     [\<lparr>strikePrice = 100, expiryDate = ''2024-01-25'', impliedVolatility = 0.20\<rparr>]
     [\<lparr>strikePrice = 100, expiryDate = ''2024-01-25'', impliedVolatility = 0.27\<rparr>,
      \<lparr>strikePrice = 105, expiryDate = ''2024-01-25'', impliedVolatility = 0.50\<rparr>] (1/20)
   = [(100, ''2024-01-25'', 0.27, 0.20)]"
  by (simp add: compare_skews_app_def iv_dict_def)

end
